theory Spec2Isabelle
  imports Main "HOL-Library.AList"
begin

section \<open>PyWO keyboard service: data model\<close>

text \<open>
  The embedding follows \<^verbatim>\<open>pywo/services/keyboard_service.py\<close>. The module works on a
  window manager singleton \<^verbatim>\<open>WM\<close>, a logger and an action registry that live in other
  modules; what the keyboard service needs of them is made explicit here.
\<close>

type_synonym keycombo = "int \<times> int"
  \<comment> \<open>the pair \<^verbatim>\<open>(modifiers, keycode)\<close> used as dictionary key and in \<^verbatim>\<open>self.keys\<close>\<close>

type_synonym window = nat
type_synonym kwargs = "(string \<times> string) list"

record key_event =
  modifiers :: int
  keycode :: int

record action =
  name :: string
  need_section :: bool

record Section =
  section_name :: string
  section_key :: "string option"
  section_ignored_actions :: "string list"

text \<open>
  The configuration object, with the attributes the module reads. \<^verbatim>\<open>config.keys\<close> is a
  dictionary read with \<^verbatim>\<open>.get\<close>; \<^verbatim>\<open>config.sections.values()\<close> is the list of sections
  in the dictionary's iteration order. \<open>config_ignored_actions\<close> holds the actions for which
  the test \<^verbatim>\<open>action in config.ignored_actions\<close> succeeds.
\<close>

record config =
  config_keys :: "(string \<times> string) list"
  config_sections :: "Section list"
  config_ignored_actions :: "action list"
  config_numlock :: int
  config_capslock :: int
  config_modal_mode :: bool
  config_visual_bell :: bool
  config_bell_color :: string
  config_bell_width :: int
  config_bell_duration :: int
  config_scroll_lock_led :: bool

text \<open>
  Exceptions as values. \<open>ActionException\<close> is \<^verbatim>\<open>actions.ActionException\<close>; \<open>ValueError\<close>
  is what \<^verbatim>\<open>WM.str2modifiers_keycode\<close> raises on an invalid key; \<open>UnboundLocalError\<close>
  is Python's error on reading a local variable that was never assigned;
  \<open>OtherException\<close> stands for every other subclass of \<^verbatim>\<open>Exception\<close>; \<open>SystemExiting\<close>
  stands for the exceptions that derive from \<^verbatim>\<open>BaseException\<close> only
  (\<^verbatim>\<open>KeyboardInterrupt\<close>, \<^verbatim>\<open>SystemExit\<close>), which \<^verbatim>\<open>except Exception\<close> does not catch.
\<close>

datatype py_exception =
    ActionException string
  | ValueError
  | UnboundLocalError
  | OtherException string
  | SystemExiting string

fun isinstance_ActionException :: "py_exception \<Rightarrow> bool" where
  "isinstance_ActionException (ActionException _) = True"
| "isinstance_ActionException _ = False"

fun isinstance_Exception :: "py_exception \<Rightarrow> bool" where
  "isinstance_Exception (SystemExiting _) = False"
| "isinstance_Exception _ = True"

datatype handler_id = Controller | PywoHandler | EscapeHandler

datatype wm_call =
    ScrollLockLed bool
  | VisualBell string int int
  | Flush
  | GrabKey handler_id keycombo
  | UngrabKey handler_id keycombo
  | ActiveWindow
  | GetKwargs action "config option" "Section option"
  | CallAction action window kwargs

datatype log_record =
    LogDebug key_event
  | LogInfo string
  | LogError py_exception
  | LogException py_exception
  | LogInvalidKey Section

text \<open>
  The part of the world outside the handlers that the module changes: the key grabs
  registered with the window manager (which handler holds which combo), the calls made to
  the window manager and to actions, in order, and the log.
\<close>

record world =
  grabs :: "(handler_id \<times> keycombo) set"
  calls :: "wm_call list"
  logged :: "log_record list"

text \<open>
  What the module consumes from its collaborators, as parameters:
  \<^verbatim>\<open>WM.str2modifiers_keycode\<close> (\<open>None\<close> is \<^verbatim>\<open>ValueError\<close>; the second argument is absent in
  the one-argument calls), \<^verbatim>\<open>actions.manager.get_all()\<close>, \<^verbatim>\<open>WM.active_window()\<close>,
  \<^verbatim>\<open>action.get_kwargs(config, section)\<close> and the call of the action itself, each of which
  returns or raises.
\<close>

record env =
  str2modifiers_keycode :: "string \<Rightarrow> string option \<Rightarrow> keycombo option"
  get_all :: "action list"
  active_window :: "py_exception + window"
  get_kwargs :: "action \<Rightarrow> config option \<Rightarrow> Section option \<Rightarrow> py_exception + kwargs"
  call_action :: "action \<Rightarrow> window \<Rightarrow> kwargs \<Rightarrow> py_exception option"

subsection \<open>events.KeyHandler\<close>

text \<open>
  Modelled from the spec: the base class \<^verbatim>\<open>events.KeyHandler\<close> (module
  \<^verbatim>\<open>pywo.core.events\<close>) is not part of the source at hand. Its constructor takes the
  list of key combos (empty when not given) and the lock flags (0 when not given); its
  \<^verbatim>\<open>grab_keys\<close> and \<^verbatim>\<open>ungrab_keys\<close> register and deregister every combo of the handler's
  \<^verbatim>\<open>keys\<close> with the window manager, for delivery to that handler.
\<close>

record KeyHandler =
  keys :: "keycombo list"
  numlock :: int
  capslock :: int

definition KeyHandler_init :: "keycombo list \<Rightarrow> KeyHandler" where
  "KeyHandler_init ks = \<lparr>keys = ks, numlock = 0, capslock = 0\<rparr>"

definition KeyHandler_grab_keys :: "handler_id \<Rightarrow> keycombo list \<Rightarrow> world \<Rightarrow> world" where
  "KeyHandler_grab_keys h ks w =
     w\<lparr>grabs := grabs w \<union> Pair h ` set ks, calls := calls w @ map (GrabKey h) ks\<rparr>"

definition KeyHandler_ungrab_keys :: "handler_id \<Rightarrow> keycombo list \<Rightarrow> world \<Rightarrow> world" where
  "KeyHandler_ungrab_keys h ks w =
     w\<lparr>grabs := grabs w - Pair h ` set ks, calls := calls w @ map (UngrabKey h) ks\<rparr>"

section \<open>PywoModeKeyPressHandler\<close>

record PywoModeKeyPressHandler = KeyHandler +
  config :: "config option"
  mappings :: "(keycombo \<times> action \<times> Section option) list"

text \<open>\<^verbatim>\<open>PywoModeKeyPressHandler()\<close> without a configuration, as \<^verbatim>\<open>ModalKeyHandler\<close> builds it.\<close>

definition PywoModeKeyPressHandler_init :: PywoModeKeyPressHandler where
  "PywoModeKeyPressHandler_init =
     \<lparr>keys = [], numlock = 0, capslock = 0, config = None, mappings = []\<rparr>"

text \<open>Python's truth value of a string that may be \<^verbatim>\<open>None\<close>.\<close>

fun truthy :: "string option \<Rightarrow> bool" where
  "truthy None = False"
| "truthy (Some s) = (s \<noteq> [])"

text \<open>
  The frame of one run of \<^verbatim>\<open>set_config\<close>: the handler (its dictionary is changed in
  place), the local variables \<^verbatim>\<open>(mod, keycode)\<close> (\<open>None\<close> while unassigned) and the
  world, of which only the log changes.
\<close>

record frame =
  self :: PywoModeKeyPressHandler
  mod_keycode :: "keycombo option"
  wm :: world

text \<open>
  The inner loop \<^verbatim>\<open>for section in config.sections.values()\<close>. The \<^verbatim>\<open>except ValueError\<close>
  clause only logs: control then reaches the assignment to \<^verbatim>\<open>self.mappings\<close> with the
  values \<^verbatim>\<open>mod\<close> and \<^verbatim>\<open>keycode\<close> had before, or with none.
\<close>

fun section_loop :: "env \<Rightarrow> action \<Rightarrow> string \<Rightarrow> Section list \<Rightarrow> frame
    \<Rightarrow> (py_exception \<times> frame) + frame" where
  "section_loop e a msk [] f = Inr f"
| "section_loop e a msk (sec # secs) f =
     (if truthy (section_key sec) \<and> name a \<notin> set (section_ignored_actions sec) then
        (let f1 = (case str2modifiers_keycode e msk (section_key sec) of
                     Some kc \<Rightarrow> f\<lparr>mod_keycode := Some kc\<rparr>
                   | None \<Rightarrow> f\<lparr>wm := (wm f)\<lparr>logged := logged (wm f) @ [LogInvalidKey sec]\<rparr>\<rparr>)
         in (case mod_keycode f1 of
               None \<Rightarrow> Inl (UnboundLocalError, f1)
             | Some kc \<Rightarrow>
                 section_loop e a msk secs
                   (f1\<lparr>self := (self f1)\<lparr>mappings :=
                          AList.update kc (a, Some sec) (mappings (self f1))\<rparr>\<rparr>)))
      else section_loop e a msk secs f)"

text \<open>The outer loop \<^verbatim>\<open>for action in actions.manager.get_all()\<close>.\<close>

fun action_loop :: "env \<Rightarrow> config \<Rightarrow> action list \<Rightarrow> frame
    \<Rightarrow> (py_exception \<times> frame) + frame" where
  "action_loop e c [] f = Inr f"
| "action_loop e c (a # as) f =
     (if need_section a then
        (case map_of (config_keys c) (name a) of
           None \<Rightarrow> action_loop e c as f
         | Some msk \<Rightarrow>
             if msk = [] then action_loop e c as f
             else (case section_loop e a msk (config_sections c) f of
                     Inl x \<Rightarrow> Inl x
                   | Inr f' \<Rightarrow> action_loop e c as f'))
      else
        (case map_of (config_keys c) (name a) of
           None \<Rightarrow> action_loop e c as f
         | Some key \<Rightarrow>
             if key \<noteq> [] \<and> a \<notin> set (config_ignored_actions c) then
               (case str2modifiers_keycode e key None of
                  None \<Rightarrow> Inl (ValueError, f)
                | Some kc \<Rightarrow>
                    action_loop e c as
                      (f\<lparr>mod_keycode := Some kc,
                         self := (self f)\<lparr>mappings :=
                           AList.update kc (a, None) (mappings (self f))\<rparr>\<rparr>))
             else action_loop e c as f))"

text \<open>
  \<^verbatim>\<open>PywoModeKeyPressHandler.set_config\<close>. An exception leaves the handler as it is at
  that point: the new configuration stored, the dictionary cleared and partly filled,
  \<^verbatim>\<open>keys\<close> and the lock flags not yet assigned. The dictionary is an association list
  with one entry per key; \<^verbatim>\<open>self.mappings.keys()\<close> is the list of its keys, here in the
  order of first insertion.
\<close>

definition PywoModeKeyPressHandler_set_config ::
    "env \<Rightarrow> config \<Rightarrow> PywoModeKeyPressHandler \<times> world
     \<Rightarrow> (py_exception \<times> PywoModeKeyPressHandler \<times> world) + PywoModeKeyPressHandler \<times> world" where
  "PywoModeKeyPressHandler_set_config e c = (\<lambda>(ph, w).
     (case action_loop e c (get_all e)
             \<lparr>self = ph\<lparr>config := Some c, mappings := []\<rparr>, mod_keycode = None, wm = w\<rparr> of
        Inl (x, f) \<Rightarrow> Inl (x, self f, wm f)
      | Inr f \<Rightarrow>
          Inr ((self f)\<lparr>keys := map fst (mappings (self f)),
                         numlock := config_numlock c,
                         capslock := config_capslock c\<rparr>, wm f)))"

text \<open>
  \<^verbatim>\<open>PywoModeKeyPressHandler.key_press\<close>. The three calls of the \<^verbatim>\<open>try\<close> block, each of
  which may raise, then the two \<^verbatim>\<open>except\<close> clauses in their order; an exception that
  neither clause matches leaves the method.
\<close>

definition try_block :: "env \<Rightarrow> PywoModeKeyPressHandler \<Rightarrow> action \<Rightarrow> Section option \<Rightarrow> world
    \<Rightarrow> (py_exception \<times> world) + world" where
  "try_block e ph a sec w =
     (let w1 = w\<lparr>calls := calls w @ [ActiveWindow]\<rparr> in
      case active_window e of
        Inl x \<Rightarrow> Inl (x, w1)
      | Inr win \<Rightarrow>
          (let w2 = w1\<lparr>calls := calls w1 @ [GetKwargs a (config ph) sec]\<rparr> in
           case get_kwargs e a (config ph) sec of
             Inl x \<Rightarrow> Inl (x, w2)
           | Inr kw \<Rightarrow>
               (let w3 = w2\<lparr>calls := calls w2 @ [CallAction a win kw]\<rparr> in
                case call_action e a win kw of
                  Some x \<Rightarrow> Inl (x, w3)
                | None \<Rightarrow> Inr w3)))"

definition PywoModeKeyPressHandler_key_press ::
    "env \<Rightarrow> key_event \<Rightarrow> PywoModeKeyPressHandler \<Rightarrow> world \<Rightarrow> (py_exception \<times> world) + world" where
  "PywoModeKeyPressHandler_key_press e ev ph w =
     (case map_of (mappings ph) (modifiers ev, keycode ev) of
        None \<Rightarrow> Inr w
      | Some (a, sec) \<Rightarrow>
          (case try_block e ph a sec (w\<lparr>logged := logged w @ [LogDebug ev]\<rparr>) of
             Inr w' \<Rightarrow> Inr w'
           | Inl (x, w') \<Rightarrow>
               if isinstance_ActionException x
               then Inr (w'\<lparr>logged := logged w' @ [LogError x]\<rparr>)
               else if isinstance_Exception x
               then Inr (w'\<lparr>logged := logged w' @ [LogException x]\<rparr>)
               else Inl (x, w')))"

section \<open>ModalKeyHandler\<close>

record ModalKeyHandler = KeyHandler +
  use_modal_mode :: bool
  in_pywo_mode :: bool
  pywo_handler :: PywoModeKeyPressHandler
  escape_handler :: KeyHandler
  visual_bell :: bool
  bell_color :: string
  bell_width :: int
  bell_duration :: int
  scroll_lock_led :: bool

text \<open>
  \<^verbatim>\<open>ModalKeyHandler()\<close> without a configuration, as the module builds \<^verbatim>\<open>HANDLER\<close>. The
  escape handler's callback is \<^verbatim>\<open>normal_mode\<close>; its key list is the resolved \<^verbatim>\<open>'Escape'\<close>.
\<close>

definition ModalKeyHandler_init :: "env \<Rightarrow> py_exception + ModalKeyHandler" where
  "ModalKeyHandler_init e =
     (case str2modifiers_keycode e ''Escape'' None of
        None \<Rightarrow> Inl ValueError
      | Some kc \<Rightarrow>
          Inr \<lparr>keys = [], numlock = 0, capslock = 0,
               use_modal_mode = False, in_pywo_mode = False,
               pywo_handler = PywoModeKeyPressHandler_init,
               escape_handler = KeyHandler_init [kc],
               visual_bell = False, bell_color = ''white'', bell_width = 0,
               bell_duration = 0, scroll_lock_led = False\<rparr>)"

definition wm_do :: "wm_call \<Rightarrow> world \<Rightarrow> world" where
  "wm_do c w = w\<lparr>calls := calls w @ [c]\<rparr>"

definition log_do :: "log_record \<Rightarrow> world \<Rightarrow> world" where
  "log_do r w = w\<lparr>logged := logged w @ [r]\<rparr>"

definition ModalKeyHandler_grab_keys :: "ModalKeyHandler \<Rightarrow> world \<Rightarrow> world" where
  "ModalKeyHandler_grab_keys s w =
     (if use_modal_mode s then KeyHandler_grab_keys Controller (keys s) w
      else KeyHandler_grab_keys PywoHandler (keys (pywo_handler s)) w)"

definition ModalKeyHandler_ungrab_keys :: "ModalKeyHandler \<Rightarrow> world \<Rightarrow> world" where
  "ModalKeyHandler_ungrab_keys s w =
     (let w1 = (if in_pywo_mode s \<and> use_modal_mode s
                then KeyHandler_ungrab_keys EscapeHandler (keys (escape_handler s)) w
                else w)
      in if in_pywo_mode s
         then KeyHandler_ungrab_keys PywoHandler (keys (pywo_handler s)) w1
         else KeyHandler_ungrab_keys Controller (keys s) w1)"

definition pywo_mode :: "key_event \<Rightarrow> ModalKeyHandler \<times> world \<Rightarrow> ModalKeyHandler \<times> world" where
  "pywo_mode ev = (\<lambda>(s, w).
     (let w0 = log_do (LogDebug ev) w;
          w1 = (if scroll_lock_led s then wm_do (ScrollLockLed True) w0 else w0);
          w2 = (if visual_bell s
                then wm_do (VisualBell (bell_color s) (bell_width s) (bell_duration s)) w1
                else w1);
          w3 = KeyHandler_grab_keys PywoHandler (keys (pywo_handler s)) w2;
          w4 = KeyHandler_grab_keys EscapeHandler (keys (escape_handler s)) w3
      in (s\<lparr>in_pywo_mode := True\<rparr>, w4)))"

definition normal_mode :: "key_event \<Rightarrow> ModalKeyHandler \<times> world \<Rightarrow> ModalKeyHandler \<times> world" where
  "normal_mode ev = (\<lambda>(s, w).
     (let w0 = log_do (LogDebug ev) w;
          w1 = (if scroll_lock_led s then wm_do (ScrollLockLed False) w0 else w0);
          w2 = (if visual_bell s
                then wm_do (VisualBell (bell_color s) (bell_width s) (bell_duration s)) w1
                else w1);
          w3 = ModalKeyHandler_ungrab_keys s w2
      in (s\<lparr>in_pywo_mode := False\<rparr>, w3)))"

definition ModalKeyHandler_key_press ::
    "key_event \<Rightarrow> ModalKeyHandler \<times> world \<Rightarrow> ModalKeyHandler \<times> world" where
  "ModalKeyHandler_key_press ev = (\<lambda>(s, w).
     if (modifiers ev, keycode ev) \<notin> set (keys s) then (s, w)
     else if in_pywo_mode s then normal_mode ev (s, w)
     else pywo_mode ev (s, w))"

text \<open>
  \<^verbatim>\<open>ModalKeyHandler.set_config\<close>. An exception of the inner handler's \<^verbatim>\<open>set_config\<close> or of
  the resolution of the mode key leaves the method at that point.
\<close>

definition ModalKeyHandler_set_config ::
    "env \<Rightarrow> config \<Rightarrow> ModalKeyHandler \<times> world
     \<Rightarrow> (py_exception \<times> ModalKeyHandler \<times> world) + ModalKeyHandler \<times> world" where
  "ModalKeyHandler_set_config e c = (\<lambda>(s, w).
     (case PywoModeKeyPressHandler_set_config e c (pywo_handler s, w) of
        Inl (x, ph, w') \<Rightarrow> Inl (x, s\<lparr>pywo_handler := ph\<rparr>, w')
      | Inr (ph, w') \<Rightarrow>
          (let s1 = s\<lparr>pywo_handler := ph\<rparr>;
               no_key = Inr (s1\<lparr>use_modal_mode := False\<rparr>, w')
           in case map_of (config_keys c) ''pywo_mode'' of
                None \<Rightarrow> no_key
              | Some pywo_mode_key \<Rightarrow>
                  if pywo_mode_key = [] then no_key
                  else (case str2modifiers_keycode e pywo_mode_key None of
                          None \<Rightarrow> Inl (ValueError, s1, w')
                        | Some kc \<Rightarrow>
                            (let s2 = s1\<lparr>keys := [kc],
                                          numlock := config_numlock c,
                                          capslock := config_capslock c,
                                          use_modal_mode := config_modal_mode c,
                                          visual_bell := config_visual_bell c,
                                          bell_color := config_bell_color c,
                                          bell_width := config_bell_width c,
                                          bell_duration := config_bell_duration c,
                                          scroll_lock_led := config_scroll_lock_led c\<rparr>
                             in Inr (if \<not> use_modal_mode s2 then s2\<lparr>in_pywo_mode := True\<rparr>
                                     else s2, w'))))))"

subsection \<open>Module entry points\<close>

text \<open>
  \<^verbatim>\<open>setup\<close>, \<^verbatim>\<open>start\<close> and \<open>stop\<close> work on the module's \<^verbatim>\<open>HANDLER\<close> and \<^verbatim>\<open>WM\<close>, passed
  here as the state.
\<close>

definition module_setup :: "env \<Rightarrow> config \<Rightarrow> ModalKeyHandler \<times> world
    \<Rightarrow> (py_exception \<times> ModalKeyHandler \<times> world) + ModalKeyHandler \<times> world" where
  "module_setup e c = ModalKeyHandler_set_config e c"

definition start :: "ModalKeyHandler \<times> world \<Rightarrow> ModalKeyHandler \<times> world" where
  "start = (\<lambda>(s, w).
     (s, ModalKeyHandler_grab_keys s (log_do (LogInfo ''Registering keyboard shortcuts'') w)))"

definition stop :: "ModalKeyHandler \<times> world \<Rightarrow> ModalKeyHandler \<times> world" where
  "stop = (\<lambda>(s, w).
     (s, log_do (LogInfo ''Keyboard shortcuts unregistered'')
           (ModalKeyHandler_ungrab_keys s (wm_do Flush (wm_do (ScrollLockLed False) w)))))"

section \<open>Life cycle\<close>

text \<open>
  The surrounding process calls \<^verbatim>\<open>setup\<close>, \<^verbatim>\<open>start\<close> and \<^verbatim>\<open>stop\<close>; the event loop
  delivers key presses to the controller's \<^verbatim>\<open>key_press\<close>, to the escape handler (whose
  callback is \<^verbatim>\<open>normal_mode\<close>) and to the inner handler's \<^verbatim>\<open>key_press\<close>. A \<^verbatim>\<open>setup\<close>
  or a key press that raises leaves the state it had reached.
\<close>

datatype step =
    Setup config
  | Start
  | Stop
  | KeyPress key_event
  | EscapePress key_event
  | ShortcutPress key_event

fun outcome_state :: "('x \<times> 's) + 's \<Rightarrow> 's" where
  "outcome_state (Inl (x, st)) = st"
| "outcome_state (Inr st) = st"

fun exec_step :: "env \<Rightarrow> step \<Rightarrow> ModalKeyHandler \<times> world \<Rightarrow> ModalKeyHandler \<times> world" where
  "exec_step e (Setup c) st = outcome_state (module_setup e c st)"
| "exec_step e Start st = start st"
| "exec_step e Stop st = stop st"
| "exec_step e (KeyPress ev) st = ModalKeyHandler_key_press ev st"
| "exec_step e (EscapePress ev) st = normal_mode ev st"
| "exec_step e (ShortcutPress ev) st =
     (fst st, outcome_state
        (PywoModeKeyPressHandler_key_press e ev (pywo_handler (fst st)) (snd st)))"

fun run :: "env \<Rightarrow> step list \<Rightarrow> ModalKeyHandler \<times> world \<Rightarrow> ModalKeyHandler \<times> world" where
  "run e [] st = st"
| "run e (x # xs) st = run e xs (exec_step e x st)"

section \<open>Properties stated about the service\<close>


text \<open>No combo is grabbed for two different handlers.\<close>

definition at_most_one_handler :: "world \<Rightarrow> bool" where
  "at_most_one_handler w \<longleftrightarrow>
     (\<forall>(h, k) \<in> grabs w. \<forall>(h', k') \<in> grabs w. k = k' \<longrightarrow> h = h')"

text \<open>
  Along a run, the controller's key list stays within \<open>C\<close> and the inner handler's
  within \<open>P\<close>.
\<close>

fun keys_stay_within :: "env \<Rightarrow> keycombo set \<Rightarrow> keycombo set \<Rightarrow> step list
    \<Rightarrow> ModalKeyHandler \<times> world \<Rightarrow> bool" where
  "keys_stay_within e C P [] st = True"
| "keys_stay_within e C P (x # xs) st =
     (set (keys (fst (exec_step e x st))) \<subseteq> C \<and>
      set (keys (pywo_handler (fst (exec_step e x st)))) \<subseteq> P \<and>
      keys_stay_within e C P xs (exec_step e x st))"

text \<open>
  The key lists of the controller and of the inner handler are within \<open>C\<close> and \<open>P\<close>, and
  every grab is held by the controller on a combo of \<open>C\<close>, by the inner handler on a
  combo of \<open>P\<close>, or by the escape handler on one of its own combos.
\<close>

definition grabs_within :: "keycombo set \<Rightarrow> keycombo set \<Rightarrow> ModalKeyHandler \<times> world \<Rightarrow> bool" where
  "grabs_within C P st \<longleftrightarrow>
     set (keys (fst st)) \<subseteq> C \<and>
     set (keys (pywo_handler (fst st))) \<subseteq> P \<and>
     grabs (snd st) \<subseteq>
       Pair Controller ` C \<union> Pair PywoHandler ` P \<union>
       Pair EscapeHandler ` set (keys (escape_handler (fst st)))"

section \<open>Example configurations\<close>

definition act_maximize :: action where
  "act_maximize = \<lparr>name = ''maximize'', need_section = False\<rparr>"

definition act_shade :: action where
  "act_shade = \<lparr>name = ''shade'', need_section = False\<rparr>"

definition act_move :: action where
  "act_move = \<lparr>name = ''move'', need_section = True\<rparr>"

definition demo_keymap :: "((string \<times> string option) \<times> keycombo) list" where
  "demo_keymap =
     [((''Escape'', None), (0, 9)), ((''Super-p'', None), (64, 33)),
      ((''Super-m'', None), (64, 58)), ((''Super-s'', None), (64, 39)),
      ((''Super'', Some ''h''), (64, 43)), ((''Super'', Some ''l''), (64, 46))]"

text \<open>
  In the example, \<^verbatim>\<open>maximize\<close> raises an \<^verbatim>\<open>ActionException\<close>, \<^verbatim>\<open>shade\<close> raises another
  exception and \<^verbatim>\<open>move\<close> returns.
\<close>

definition demo_env :: env where
  "demo_env =
     \<lparr>str2modifiers_keycode = (\<lambda>code key. map_of demo_keymap (code, key)),
      get_all = [act_maximize, act_shade, act_move],
      active_window = Inr 7,
      get_kwargs = (\<lambda>a c sec. Inr []),
      call_action = (\<lambda>a win kw.
         if name a = ''maximize'' then Some (ActionException ''no window'')
         else if name a = ''shade'' then Some (OtherException ''boom'')
         else None)\<rparr>"

definition sec_left :: Section where
  "sec_left = \<lparr>section_name = ''left'', section_key = Some ''h'', section_ignored_actions = []\<rparr>"

definition sec_right :: Section where
  "sec_right = \<lparr>section_name = ''right'', section_key = Some ''l'', section_ignored_actions = []\<rparr>"

definition sec_broken :: Section where
  "sec_broken =
     \<lparr>section_name = ''broken'', section_key = Some ''bogus'', section_ignored_actions = []\<rparr>"

definition cfg_modal :: config where
  "cfg_modal =
     \<lparr>config_keys = [(''pywo_mode'', ''Super-p''), (''maximize'', ''Super-m''),
                     (''shade'', ''Super-s''), (''move'', ''Super'')],
      config_sections = [sec_left, sec_right], config_ignored_actions = [],
      config_numlock = 1, config_capslock = 2, config_modal_mode = True,
      config_visual_bell = True, config_bell_color = ''red'', config_bell_width = 2,
      config_bell_duration = 100, config_scroll_lock_led = True\<rparr>"

definition cfg_nokey :: config where
  "cfg_nokey = cfg_modal\<lparr>config_keys := [(''maximize'', ''Super-m''), (''move'', ''Super'')]\<rparr>"

definition cfg_nokey_broken :: config where
  "cfg_nokey_broken =
     cfg_modal\<lparr>config_keys := [(''maximize'', ''Super-m''), (''shade'', ''bogus''),
                                (''move'', ''Super'')]\<rparr>"

definition cfg_broken_section :: config where
  "cfg_broken_section = cfg_modal\<lparr>config_sections := [sec_left, sec_broken]\<rparr>"

definition cfg_broken_global :: config where
  "cfg_broken_global =
     cfg_modal\<lparr>config_keys := [(''pywo_mode'', ''Super-p''), (''maximize'', ''Super-m''),
                                (''shade'', ''bogus''), (''move'', ''Super'')],
               config_numlock := 0\<rparr>"

definition cfg_clash :: config where
  "cfg_clash = cfg_modal\<lparr>config_keys := [(''pywo_mode'', ''Super-m''), (''maximize'', ''Super-m'')]\<rparr>"

definition world0 :: world where
  "world0 = \<lparr>grabs = {}, calls = [], logged = []\<rparr>"

definition handler0 :: ModalKeyHandler where
  "handler0 =
     \<lparr>keys = [], numlock = 0, capslock = 0,
      use_modal_mode = False, in_pywo_mode = False,
      pywo_handler = PywoModeKeyPressHandler_init,
      escape_handler = KeyHandler_init [(0, 9)],
      visual_bell = False, bell_color = ''white'', bell_width = 0,
      bell_duration = 0, scroll_lock_led = False\<rparr>"

definition ev_mode :: key_event where
  "ev_mode = \<lparr>modifiers = 64, keycode = 33\<rparr>"

definition ev_maximize :: key_event where
  "ev_maximize = \<lparr>modifiers = 64, keycode = 58\<rparr>"

definition ev_shade :: key_event where
  "ev_shade = \<lparr>modifiers = 64, keycode = 39\<rparr>"

definition ev_unbound :: key_event where
  "ev_unbound = \<lparr>modifiers = 0, keycode = 38\<rparr>"

text \<open>The states the example configurations lead to, written out.\<close>

definition ph_modal :: PywoModeKeyPressHandler where
  "ph_modal =
     \<lparr>keys = [(64, 58), (64, 39), (64, 43), (64, 46)], numlock = 1, capslock = 2,
      config = Some cfg_modal,
      mappings = [((64, 58), act_maximize, None), ((64, 39), act_shade, None),
                  ((64, 43), act_move, Some sec_left), ((64, 46), act_move, Some sec_right)]\<rparr>"

definition handler_modal :: ModalKeyHandler where
  "handler_modal =
     \<lparr>keys = [(64, 33)], numlock = 1, capslock = 2,
      use_modal_mode = True, in_pywo_mode = False,
      pywo_handler = ph_modal,
      escape_handler = KeyHandler_init [(0, 9)],
      visual_bell = True, bell_color = ''red'', bell_width = 2,
      bell_duration = 100, scroll_lock_led = True\<rparr>"

definition ph_nokey :: PywoModeKeyPressHandler where
  "ph_nokey =
     \<lparr>keys = [(64, 58), (64, 43), (64, 46)], numlock = 1, capslock = 2,
      config = Some cfg_nokey,
      mappings = [((64, 58), act_maximize, None),
                  ((64, 43), act_move, Some sec_left), ((64, 46), act_move, Some sec_right)]\<rparr>"

section \<open>Auxiliary facts\<close>

text \<open>
  Selecting a field of the controller after an update of another one, for the fields
  whose values are handlers themselves.
\<close>

lemma ModalKeyHandler_select_update [simp]:
  fixes s :: ModalKeyHandler
  shows "keys (s\<lparr>pywo_handler := p\<rparr>) = keys s"
    and "keys (s\<lparr>escape_handler := h\<rparr>) = keys s"
    and "numlock (s\<lparr>pywo_handler := p\<rparr>) = numlock s"
    and "numlock (s\<lparr>escape_handler := h\<rparr>) = numlock s"
    and "capslock (s\<lparr>pywo_handler := p\<rparr>) = capslock s"
    and "capslock (s\<lparr>escape_handler := h\<rparr>) = capslock s"
    and "pywo_handler (s\<lparr>keys := ks\<rparr>) = pywo_handler s"
    and "pywo_handler (s\<lparr>numlock := n\<rparr>) = pywo_handler s"
    and "pywo_handler (s\<lparr>capslock := n\<rparr>) = pywo_handler s"
    and "escape_handler (s\<lparr>keys := ks\<rparr>) = escape_handler s"
    and "escape_handler (s\<lparr>numlock := n\<rparr>) = escape_handler s"
    and "escape_handler (s\<lparr>capslock := n\<rparr>) = escape_handler s"
  by (cases s; simp)+

lemmas demo_defs =
  demo_env_def demo_keymap_def act_maximize_def act_shade_def act_move_def
  sec_left_def sec_right_def sec_broken_def cfg_modal_def cfg_nokey_def cfg_nokey_broken_def
  cfg_broken_section_def cfg_broken_global_def cfg_clash_def world0_def handler0_def
  ev_mode_def ev_maximize_def ev_shade_def ev_unbound_def ph_modal_def handler_modal_def
  ph_nokey_def PywoModeKeyPressHandler_init_def KeyHandler_init_def

lemmas set_config_defs =
  module_setup_def ModalKeyHandler_set_config_def PywoModeKeyPressHandler_set_config_def

lemmas mode_defs =
  ModalKeyHandler_key_press_def pywo_mode_def normal_mode_def
  ModalKeyHandler_grab_keys_def ModalKeyHandler_ungrab_keys_def
  KeyHandler_grab_keys_def KeyHandler_ungrab_keys_def start_def stop_def wm_do_def log_do_def

lemma init_demo: "ModalKeyHandler_init demo_env = Inr handler0"
  by (simp add: ModalKeyHandler_init_def demo_defs)

lemma setup_modal: "module_setup demo_env cfg_modal (handler0, world0) = Inr (handler_modal, world0)"
  by (simp add: set_config_defs demo_defs)



section \<open>The inner handler's key press\<close>

text \<open>
  Claim C9. For every key event whose pair of modifier mask and keycode is not a key of the
  current mappings, \<^verbatim>\<open>key_press\<close> of the inner handler does nothing: it returns normally
  and leaves the world as it was, so no action is invoked, the active window is not
  queried, nothing is logged and no error is raised.
\<close>

theorem key_press_unbound_noop:
  "(modifiers ev, keycode ev) \<notin> fst ` set (mappings ph) \<Longrightarrow>
   PywoModeKeyPressHandler_key_press e ev ph w = Inr w"
  by (simp add: PywoModeKeyPressHandler_key_press_def map_of_eq_None_iff[THEN iffD2])

theorem key_press_unbound_noop_witness:
  "(modifiers ev_unbound, keycode ev_unbound) \<notin> fst ` set (mappings ph_modal) \<and>
   PywoModeKeyPressHandler_key_press demo_env ev_unbound ph_modal world0 = Inr world0"
  using key_press_unbound_noop [of ev_unbound ph_modal demo_env world0]
  by (simp add: ev_unbound_def ph_modal_def)




section \<open>The controller's key press\<close>

text \<open>
  Claim C8. \<^verbatim>\<open>key_press\<close> of the controller recognises only the combos of its own key
  list (the mode key). On such a press it acts on the current state: in normal state it
  runs \<^verbatim>\<open>pywo_mode\<close> and is in PyWO mode afterwards; in PyWO mode it runs \<^verbatim>\<open>normal_mode\<close>
  and is in normal state afterwards, whatever \<^verbatim>\<open>use_modal_mode\<close> is. Any other press
  changes nothing.
\<close>

theorem key_press_toggles_mode:
  "((modifiers ev, keycode ev) \<in> set (keys s) \<longrightarrow>
      (\<not> in_pywo_mode s \<longrightarrow>
         ModalKeyHandler_key_press ev (s, w) = pywo_mode ev (s, w) \<and>
         in_pywo_mode (fst (ModalKeyHandler_key_press ev (s, w)))) \<and>
      (in_pywo_mode s \<longrightarrow>
         ModalKeyHandler_key_press ev (s, w) = normal_mode ev (s, w) \<and>
         \<not> in_pywo_mode (fst (ModalKeyHandler_key_press ev (s, w))))) \<and>
   ((modifiers ev, keycode ev) \<notin> set (keys s) \<longrightarrow> ModalKeyHandler_key_press ev (s, w) = (s, w))"
  by (simp add: ModalKeyHandler_key_press_def pywo_mode_def normal_mode_def Let_def)

theorem key_press_toggles_mode_witness:
  "(modifiers ev_mode, keycode ev_mode) \<in> set (keys handler_modal) \<and>
   \<not> in_pywo_mode handler_modal \<and>
   in_pywo_mode (fst (ModalKeyHandler_key_press ev_mode (handler_modal, world0))) \<and>
   in_pywo_mode (handler_modal\<lparr>use_modal_mode := False, in_pywo_mode := True\<rparr>) \<and>
   \<not> use_modal_mode (handler_modal\<lparr>use_modal_mode := False, in_pywo_mode := True\<rparr>) \<and>
   \<not> in_pywo_mode (fst (ModalKeyHandler_key_press ev_mode
        (handler_modal\<lparr>use_modal_mode := False, in_pywo_mode := True\<rparr>, world0))) \<and>
   (modifiers ev_unbound, keycode ev_unbound) \<notin> set (keys handler_modal) \<and>
   ModalKeyHandler_key_press ev_unbound (handler_modal, world0) = (handler_modal, world0)"
  using key_press_toggles_mode [of ev_mode handler_modal world0]
        key_press_toggles_mode [of ev_mode
          "handler_modal\<lparr>use_modal_mode := False, in_pywo_mode := True\<rparr>" world0]
        key_press_toggles_mode [of ev_unbound handler_modal world0]
  by (simp add: handler_modal_def ev_mode_def ev_unbound_def pywo_mode_def normal_mode_def
        Let_def)

section \<open>Configuration without a mode key\<close>

lemma no_mode_key_cases:
  "\<not> truthy (map_of (config_keys c) ''pywo_mode'') \<Longrightarrow>
   map_of (config_keys c) ''pywo_mode'' = None \<or> map_of (config_keys c) ''pywo_mode'' = Some []"
  by (cases "map_of (config_keys c) ''pywo_mode''") auto

lemma set_config_without_mode_key_returns:
  assumes "\<not> truthy (map_of (config_keys c) ''pywo_mode'')"
      and "PywoModeKeyPressHandler_set_config e c (pywo_handler s, w) = Inr (ph, w')"
  shows "ModalKeyHandler_set_config e c (s, w) =
           Inr (s\<lparr>pywo_handler := ph, use_modal_mode := False\<rparr>, w')"
  using no_mode_key_cases[OF assms(1)] assms(2)
  by (auto simp: ModalKeyHandler_set_config_def Let_def)

lemma set_config_inner_raises:
  assumes "PywoModeKeyPressHandler_set_config e c (pywo_handler s, w) = Inl (x, ph, w')"
  shows "ModalKeyHandler_set_config e c (s, w) = Inl (x, s\<lparr>pywo_handler := ph\<rparr>, w')"
  using assms by (simp add: ModalKeyHandler_set_config_def)

text \<open>
  Claim C10, as the code has it. \<^verbatim>\<open>set_config\<close> of the controller, given a configuration
  without a \<^verbatim>\<open>pywo_mode\<close> key, runs the inner handler's \<^verbatim>\<open>set_config\<close>. When that returns,
  the controller's \<^verbatim>\<open>set_config\<close> returns with the inner handler rebuilt and
  \<^verbatim>\<open>use_modal_mode\<close> cleared, and nothing else changed. Whether it returns or raises, the
  inner handler is the one its \<^verbatim>\<open>set_config\<close> left, and the controller's key list, its
  lock flags, its bell and LED settings, its escape handler and \<^verbatim>\<open>in_pywo_mode\<close> are what
  they were: a combo of the earlier key list is still recognised by \<^verbatim>\<open>key_press\<close>, which
  toggles the mode.
\<close>

theorem set_config_without_mode_key_frame:
  assumes "\<not> truthy (map_of (config_keys c) ''pywo_mode'')"
  shows "(\<forall>ph w'. PywoModeKeyPressHandler_set_config e c (pywo_handler s, w) = Inr (ph, w') \<longrightarrow>
            ModalKeyHandler_set_config e c (s, w) =
              Inr (s\<lparr>pywo_handler := ph, use_modal_mode := False\<rparr>, w')) \<and>
         (pywo_handler (fst (outcome_state (ModalKeyHandler_set_config e c (s, w)))),
          snd (outcome_state (ModalKeyHandler_set_config e c (s, w)))) =
           outcome_state (PywoModeKeyPressHandler_set_config e c (pywo_handler s, w)) \<and>
         keys (fst (outcome_state (ModalKeyHandler_set_config e c (s, w)))) = keys s \<and>
         numlock (fst (outcome_state (ModalKeyHandler_set_config e c (s, w)))) = numlock s \<and>
         capslock (fst (outcome_state (ModalKeyHandler_set_config e c (s, w)))) = capslock s \<and>
         visual_bell (fst (outcome_state (ModalKeyHandler_set_config e c (s, w)))) =
           visual_bell s \<and>
         bell_color (fst (outcome_state (ModalKeyHandler_set_config e c (s, w)))) =
           bell_color s \<and>
         bell_width (fst (outcome_state (ModalKeyHandler_set_config e c (s, w)))) =
           bell_width s \<and>
         bell_duration (fst (outcome_state (ModalKeyHandler_set_config e c (s, w)))) =
           bell_duration s \<and>
         scroll_lock_led (fst (outcome_state (ModalKeyHandler_set_config e c (s, w)))) =
           scroll_lock_led s \<and>
         in_pywo_mode (fst (outcome_state (ModalKeyHandler_set_config e c (s, w)))) =
           in_pywo_mode s \<and>
         escape_handler (fst (outcome_state (ModalKeyHandler_set_config e c (s, w)))) =
           escape_handler s \<and>
         (\<forall>ev w2. (modifiers ev, keycode ev) \<in> set (keys s) \<longrightarrow>
            in_pywo_mode (fst (ModalKeyHandler_key_press ev
              (fst (outcome_state (ModalKeyHandler_set_config e c (s, w))), w2))) =
            (\<not> in_pywo_mode s))"
proof (cases "PywoModeKeyPressHandler_set_config e c (pywo_handler s, w)")
  case (Inl p)
  obtain x ph w' where p: "p = (x, ph, w')" by (cases p)
  from Inl p have r: "ModalKeyHandler_set_config e c (s, w) = Inl (x, s\<lparr>pywo_handler := ph\<rparr>, w')"
    by (simp add: set_config_inner_raises)
  show ?thesis
    by (simp add: r Inl p ModalKeyHandler_key_press_def pywo_mode_def normal_mode_def Let_def)
next
  case (Inr p)
  obtain ph w' where p: "p = (ph, w')" by (cases p)
  from Inr p assms
  have r: "ModalKeyHandler_set_config e c (s, w) =
             Inr (s\<lparr>pywo_handler := ph, use_modal_mode := False\<rparr>, w')"
    by (simp add: set_config_without_mode_key_returns)
  show ?thesis
    by (simp add: r Inr p ModalKeyHandler_key_press_def pywo_mode_def normal_mode_def Let_def)
qed

theorem set_config_without_mode_key_frame_witness:
  "\<not> truthy (map_of (config_keys cfg_nokey) ''pywo_mode'') \<and>
   PywoModeKeyPressHandler_set_config demo_env cfg_nokey (pywo_handler handler_modal, world0) =
     Inr (ph_nokey, world0) \<and>
   ModalKeyHandler_set_config demo_env cfg_nokey (handler_modal, world0) =
     Inr (handler_modal\<lparr>pywo_handler := ph_nokey, use_modal_mode := False\<rparr>, world0) \<and>
   keys (fst (outcome_state (ModalKeyHandler_set_config demo_env cfg_nokey
      (handler_modal, world0)))) = [(64, 33)] \<and>
   (modifiers ev_mode, keycode ev_mode) \<in> set (keys handler_modal) \<and>
   \<not> in_pywo_mode handler_modal \<and>
   in_pywo_mode (fst (ModalKeyHandler_key_press ev_mode
      (fst (outcome_state (ModalKeyHandler_set_config demo_env cfg_nokey
         (handler_modal, world0))), world0)))"
proof -
  have nk: "\<not> truthy (map_of (config_keys cfg_nokey) ''pywo_mode'')"
    by (simp add: cfg_nokey_def cfg_modal_def)
  have inner: "PywoModeKeyPressHandler_set_config demo_env cfg_nokey
      (pywo_handler handler_modal, world0) = Inr (ph_nokey, world0)"
    by (simp add: PywoModeKeyPressHandler_set_config_def demo_defs)
  have mem: "(modifiers ev_mode, keycode ev_mode) \<in> set (keys handler_modal)"
    by (simp add: ev_mode_def handler_modal_def)
  have k: "keys handler_modal = [(64, 33)]" and np: "\<not> in_pywo_mode handler_modal"
    by (simp_all add: handler_modal_def)
  note frame = set_config_without_mode_key_frame [OF nk, of demo_env handler_modal world0]
  from frame inner
  have r: "ModalKeyHandler_set_config demo_env cfg_nokey (handler_modal, world0) =
     Inr (handler_modal\<lparr>pywo_handler := ph_nokey, use_modal_mode := False\<rparr>, world0)"
    by blast
  from frame k
  have ks: "keys (fst (outcome_state (ModalKeyHandler_set_config demo_env cfg_nokey
      (handler_modal, world0)))) = [(64, 33)]"
    by simp
  from frame mem np
  have t: "in_pywo_mode (fst (ModalKeyHandler_key_press ev_mode
      (fst (outcome_state (ModalKeyHandler_set_config demo_env cfg_nokey
         (handler_modal, world0))), world0)))"
    by blast
  from nk inner r ks mem np t show ?thesis by blast
qed

text \<open>
  The claim as written has the modal-operation flag cleared by every such call. With no
  mode key and \<^verbatim>\<open>shade\<close> bound to a key that does not resolve, the inner handler's
  \<^verbatim>\<open>set_config\<close> raises \<^verbatim>\<open>ValueError\<close>; the controller's \<^verbatim>\<open>set_config\<close> ends there and
  \<^verbatim>\<open>use_modal_mode\<close>, set by the modal configuration before, stays set.
\<close>

theorem flag_not_cleared_counterexample:
  "\<not> truthy (map_of (config_keys cfg_nokey_broken) ''pywo_mode'') \<and>
   use_modal_mode handler_modal \<and>
   ModalKeyHandler_set_config demo_env cfg_nokey_broken (handler_modal, world0) =
     Inl (ValueError,
          handler_modal\<lparr>pywo_handler :=
            ph_modal\<lparr>config := Some cfg_nokey_broken,
                     mappings := [((64, 58), act_maximize, None)]\<rparr>\<rparr>,
          world0) \<and>
   use_modal_mode
     (fst (outcome_state
        (ModalKeyHandler_set_config demo_env cfg_nokey_broken (handler_modal, world0))))"
  by (simp add: set_config_defs demo_defs)

section \<open>Setting the configuration leaves the grabs alone\<close>

lemma section_loop_grabs:
  "grabs (wm (outcome_state (section_loop e a m secs f))) = grabs (wm f)"
proof (induction secs arbitrary: f)
  case Nil
  show ?case by simp
next
  case (Cons sec secs)
  show ?case
  proof (cases "truthy (section_key sec) \<and> name a \<notin> set (section_ignored_actions sec)")
    case False
    with Cons show ?thesis by auto
  next
    case True
    show ?thesis
    proof (cases "str2modifiers_keycode e m (section_key sec)")
      case (Some kc)
      with True show ?thesis by (simp add: Cons)
    next
      case None
      note N = None
      show ?thesis
      proof (cases "mod_keycode f")
        case None
        with N True show ?thesis by simp
      next
        case (Some kc)
        with N True show ?thesis by (simp add: Cons)
      qed
    qed
  qed
qed


lemma action_loop_grabs:
  "grabs (wm (outcome_state (action_loop e c as f))) = grabs (wm f)"
proof (induction as arbitrary: f)
  case Nil
  then show ?case by simp
next
  case (Cons a as)
  show ?case
  proof (cases "map_of (config_keys c) (name a)")
    case None
    with Cons show ?thesis by simp
  next
    case (Some m)
    show ?thesis
    proof (cases "need_section a")
      case True
      show ?thesis
      proof (cases "section_loop e a m (config_sections c) f")
        case (Inl p)
        obtain x f' where p: "p = (x, f')" by (cases p)
        from section_loop_grabs[of e a m "config_sections c" f] Inl p
        have "grabs (wm f') = grabs (wm f)" by simp
        with True Some Inl p show ?thesis by (simp add: Cons)
      next
        case (Inr f')
        from section_loop_grabs[of e a m "config_sections c" f] Inr
        have "grabs (wm f') = grabs (wm f)" by simp
        with True Some Inr show ?thesis by (simp add: Cons)
      qed
    next
      case False
      show ?thesis
      proof (cases "str2modifiers_keycode e m None")
        case None
        with False Some show ?thesis by (simp add: Cons)
      next
        case (Some kc)
        with False \<open>map_of (config_keys c) (name a) = Some m\<close> show ?thesis
          by (simp add: Cons)
      qed
    qed
  qed
qed


lemma PywoModeKeyPressHandler_set_config_grabs:
  "grabs (snd (outcome_state (PywoModeKeyPressHandler_set_config e c (ph, w)))) = grabs w"
proof -
  let ?f = "\<lparr>self = ph\<lparr>config := Some c, mappings := []\<rparr>, mod_keycode = None, wm = w\<rparr>"
  have g: "grabs (wm (outcome_state (action_loop e c (get_all e) ?f))) = grabs w"
    using action_loop_grabs[of e c "get_all e" ?f] by simp
  show ?thesis
  proof (cases "action_loop e c (get_all e) ?f")
    case (Inl p)
    obtain x f' where "p = (x, f')" by (cases p)
    with Inl g show ?thesis by (simp add: PywoModeKeyPressHandler_set_config_def)
  next
    case (Inr f')
    with g show ?thesis by (simp add: PywoModeKeyPressHandler_set_config_def)
  qed
qed

lemma module_setup_preserves:
  "grabs (snd (outcome_state (module_setup e c (s, w)))) = grabs w \<and>
   escape_handler (fst (outcome_state (module_setup e c (s, w)))) = escape_handler s"
proof (cases "PywoModeKeyPressHandler_set_config e c (pywo_handler s, w)")
  case (Inl p)
  obtain x ph w' where p: "p = (x, ph, w')" by (cases p)
  from PywoModeKeyPressHandler_set_config_grabs[of e c "pywo_handler s" w] Inl p
  have "grabs w' = grabs w" by simp
  with Inl p show ?thesis by (simp add: module_setup_def ModalKeyHandler_set_config_def Let_def)
next
  case (Inr p)
  obtain ph w' where p: "p = (ph, w')" by (cases p)
  from PywoModeKeyPressHandler_set_config_grabs[of e c "pywo_handler s" w] Inr p
  have g: "grabs w' = grabs w" by simp
  show ?thesis
  proof (cases "map_of (config_keys c) ''pywo_mode''")
    case None
    with Inr p g show ?thesis by (simp add: module_setup_def ModalKeyHandler_set_config_def Let_def)
  next
    case (Some k)
    show ?thesis
    proof (cases "str2modifiers_keycode e k None")
      case None
      with Some Inr p g show ?thesis
        by (simp add: module_setup_def ModalKeyHandler_set_config_def Let_def)
    next
      case (Some kc)
      with \<open>map_of (config_keys c) ''pywo_mode'' = Some k\<close> Inr p g show ?thesis
        by (simp add: module_setup_def ModalKeyHandler_set_config_def Let_def)
    qed
  qed
qed


lemma try_block_keeps_grabs:
  "try_block e ph a sec w = Inl (x, w') \<Longrightarrow> grabs w' = grabs w"
  "try_block e ph a sec w = Inr w' \<Longrightarrow> grabs w' = grabs w"
  by (auto simp: try_block_def Let_def split: sum.splits option.splits)

lemma PywoModeKeyPressHandler_key_press_grabs:
  "grabs (outcome_state (PywoModeKeyPressHandler_key_press e ev ph w)) = grabs w"
proof (cases "map_of (mappings ph) (modifiers ev, keycode ev)")
  case None
  then show ?thesis by (simp add: PywoModeKeyPressHandler_key_press_def)
next
  case (Some t)
  obtain a sec where t: "t = (a, sec)" by (cases t)
  show ?thesis
  proof (cases "try_block e ph a sec (w\<lparr>logged := logged w @ [LogDebug ev]\<rparr>)")
    case (Inr w2)
    with Some t try_block_keeps_grabs(2)[OF Inr] show ?thesis
      by (simp add: PywoModeKeyPressHandler_key_press_def)
  next
    case (Inl p)
    obtain x w1 where p: "p = (x, w1)" by (cases p)
    with Inl have "try_block e ph a sec (w\<lparr>logged := logged w @ [LogDebug ev]\<rparr>) = Inl (x, w1)"
      by simp
    from try_block_keeps_grabs(1)[OF this] Some t Inl p show ?thesis
      by (simp add: PywoModeKeyPressHandler_key_press_def)
  qed
qed

lemma exec_step_escape_handler:
  "escape_handler (fst (exec_step e x st)) = escape_handler (fst st)"
proof (cases x)
  case (Setup c)
  then show ?thesis using module_setup_preserves[of e c "fst st" "snd st"] by simp
qed (simp_all add: start_def stop_def ModalKeyHandler_key_press_def pywo_mode_def
       normal_mode_def Let_def split_beta)

lemma exec_step_grabs:
  "grabs (snd (exec_step e x st)) \<subseteq>
     grabs (snd st) \<union> Pair Controller ` set (keys (fst st)) \<union>
     Pair PywoHandler ` set (keys (pywo_handler (fst st))) \<union>
     Pair EscapeHandler ` set (keys (escape_handler (fst st)))"
proof (cases x)
  case (Setup c)
  then show ?thesis using module_setup_preserves[of e c "fst st" "snd st"] by auto
next
  case Start
  then show ?thesis
    by (auto simp: start_def ModalKeyHandler_grab_keys_def KeyHandler_grab_keys_def
          log_do_def split_beta)
next
  case Stop
  then show ?thesis
    by (auto simp: stop_def ModalKeyHandler_ungrab_keys_def KeyHandler_ungrab_keys_def
          log_do_def wm_do_def split_beta Let_def)
next
  case (KeyPress ev)
  then show ?thesis
    by (auto simp: ModalKeyHandler_key_press_def pywo_mode_def normal_mode_def
          ModalKeyHandler_ungrab_keys_def KeyHandler_ungrab_keys_def KeyHandler_grab_keys_def
          log_do_def wm_do_def split_beta Let_def)
next
  case (EscapePress ev)
  then show ?thesis
    by (auto simp: normal_mode_def
          ModalKeyHandler_ungrab_keys_def KeyHandler_ungrab_keys_def
          log_do_def wm_do_def split_beta Let_def)
next
  case (ShortcutPress ev)
  then show ?thesis
    using PywoModeKeyPressHandler_key_press_grabs[of e ev "pywo_handler (fst st)" "snd st"]
    by auto
qed

lemma exec_step_grabs_within:
  assumes "grabs_within C P st"
      and "set (keys (fst (exec_step e x st))) \<subseteq> C"
      and "set (keys (pywo_handler (fst (exec_step e x st)))) \<subseteq> P"
  shows "grabs_within C P (exec_step e x st)"
proof -
  from assms(1) have k: "set (keys (fst st)) \<subseteq> C" "set (keys (pywo_handler (fst st))) \<subseteq> P"
    and g: "grabs (snd st) \<subseteq> Pair Controller ` C \<union> Pair PywoHandler ` P \<union>
              Pair EscapeHandler ` set (keys (escape_handler (fst st)))"
    by (simp_all add: grabs_within_def)
  from k g exec_step_grabs[of e x st]
  have "grabs (snd (exec_step e x st)) \<subseteq> Pair Controller ` C \<union> Pair PywoHandler ` P \<union>
              Pair EscapeHandler ` set (keys (escape_handler (fst st)))"
    by blast
  with assms(2,3) show ?thesis
    by (simp add: grabs_within_def exec_step_escape_handler)
qed

lemma run_grabs_within:
  "grabs_within C P st \<Longrightarrow> keys_stay_within e C P xs st \<Longrightarrow> grabs_within C P (run e xs st)"
proof (induction xs arbitrary: st)
  case Nil
  then show ?case by simp
next
  case (Cons x xs)
  from Cons.prems have "grabs_within C P (exec_step e x st)"
    by (simp add: exec_step_grabs_within)
  with Cons show ?case by simp
qed

lemma run_escape_handler:
  "escape_handler (fst (run e xs st)) = escape_handler (fst st)"
  by (induction xs arbitrary: st) (simp_all add: exec_step_escape_handler)

lemma grabs_within_at_most_one:
  assumes "grabs_within C P st" and "C \<inter> P = {}"
      and "set (keys (escape_handler (fst st))) \<inter> (C \<union> P) = {}"
  shows "at_most_one_handler (snd st)"
proof -
  from assms(1) have g: "grabs (snd st) \<subseteq> Pair Controller ` C \<union> Pair PywoHandler ` P \<union>
              Pair EscapeHandler ` set (keys (escape_handler (fst st)))"
    by (simp add: grabs_within_def)
  show ?thesis
    unfolding at_most_one_handler_def
  proof (intro ballI, clarify)
    fix h k h'
    assume a: "(h, k) \<in> grabs (snd st)" and b: "(h', k) \<in> grabs (snd st)"
    from a g have ra: "(h = Controller \<and> k \<in> C) \<or> (h = PywoHandler \<and> k \<in> P) \<or>
        (h = EscapeHandler \<and> k \<in> set (keys (escape_handler (fst st))))" by blast
    from b g have rb: "(h' = Controller \<and> k \<in> C) \<or> (h' = PywoHandler \<and> k \<in> P) \<or>
        (h' = EscapeHandler \<and> k \<in> set (keys (escape_handler (fst st))))" by blast
    from ra rb assms(2,3) show "h = h'" by blast
  qed
qed

section \<open>One handler per grabbed combo\<close>

text \<open>
  Claim C2, as the code has it. Nothing in the module keeps two handlers from grabbing
  the same combo: each handler grabs the combos of its own key list. What holds is this.
  Start from a fresh controller and no grabs, and take any sequence of \<^verbatim>\<open>setup\<close>,
  \<^verbatim>\<open>start\<close>, \<^verbatim>\<open>stop\<close> and key presses. If along it the controller's key list stays within
  a set \<open>C\<close> and the inner handler's within a set \<open>P\<close>, where \<open>C\<close>, \<open>P\<close> and the escape
  combo are apart from each other, then no combo is ever grabbed for two handlers.
\<close>

theorem grabs_at_most_one_handler:
  assumes "ModalKeyHandler_init e = Inr s0"
      and "grabs w0 = {}"
      and "C \<inter> P = {}"
      and "set (keys (escape_handler s0)) \<inter> (C \<union> P) = {}"
      and "keys_stay_within e C P xs (s0, w0)"
  shows "at_most_one_handler (snd (run e xs (s0, w0)))"
proof -
  from assms(1) have "keys s0 = []" "keys (pywo_handler s0) = []"
    by (auto simp: ModalKeyHandler_init_def PywoModeKeyPressHandler_init_def split: option.splits)
  with assms(2) have "grabs_within C P (s0, w0)" by (simp add: grabs_within_def)
  from run_grabs_within[OF this assms(5)]
  have within: "grabs_within C P (run e xs (s0, w0))" .
  from assms(4)
  have esc: "set (keys (escape_handler (fst (run e xs (s0, w0))))) \<inter> (C \<union> P) = {}"
    by (simp add: run_escape_handler)
  from within assms(3) esc show ?thesis by (rule grabs_within_at_most_one)
qed


theorem grabs_at_most_one_handler_witness:
  "ModalKeyHandler_init demo_env = Inr handler0 \<and>
   grabs world0 = {} \<and>
   {(64, 33)} \<inter> {(64, 58), (64, 39), (64, 43), (64, 46 :: int)} = ({} :: keycombo set) \<and>
   set (keys (escape_handler handler0)) \<inter>
     ({(64, 33)} \<union> {(64, 58), (64, 39), (64, 43), (64, 46)}) = {} \<and>
   keys_stay_within demo_env {(64, 33)} {(64, 58), (64, 39), (64, 43), (64, 46)}
     [Setup cfg_modal, Start, KeyPress ev_mode] (handler0, world0) \<and>
   grabs (snd (run demo_env [Setup cfg_modal, Start, KeyPress ev_mode] (handler0, world0))) =
     {(Controller, (64, 33)), (PywoHandler, (64, 58)), (PywoHandler, (64, 39)),
      (PywoHandler, (64, 43)), (PywoHandler, (64, 46)), (EscapeHandler, (0, 9))} \<and>
   at_most_one_handler
     (snd (run demo_env [Setup cfg_modal, Start, KeyPress ev_mode] (handler0, world0)))"
proof -
  have h2: "grabs world0 = {}" by (simp add: world0_def)
  have h3: "{(64, 33)} \<inter> {(64, 58), (64, 39), (64, 43), (64, 46 :: int)} = ({} :: keycombo set)"
    by simp
  have h4: "set (keys (escape_handler handler0)) \<inter>
     ({(64, 33)} \<union> {(64, 58), (64, 39), (64, 43), (64, 46)}) = {}"
    by (simp add: handler0_def KeyHandler_init_def)
  have h5: "keys_stay_within demo_env {(64, 33)} {(64, 58), (64, 39), (64, 43), (64, 46)}
     [Setup cfg_modal, Start, KeyPress ev_mode] (handler0, world0)"
    by (simp add: setup_modal mode_defs handler_modal_def ph_modal_def ev_mode_def)
  have g: "grabs (snd (run demo_env [Setup cfg_modal, Start, KeyPress ev_mode]
             (handler0, world0))) =
     {(Controller, (64, 33)), (PywoHandler, (64, 58)), (PywoHandler, (64, 39)),
      (PywoHandler, (64, 43)), (PywoHandler, (64, 46)), (EscapeHandler, (0, 9))}"
    by (simp add: setup_modal mode_defs handler_modal_def ph_modal_def ev_mode_def h2
          KeyHandler_init_def insert_commute)
  from grabs_at_most_one_handler [OF init_demo h2 h3 h4 h5] init_demo h2 h3 h4 h5 g
  show ?thesis by blast
qed

theorem shared_combo_counterexample:
  "\<not> at_most_one_handler
       (snd (run demo_env [Setup cfg_clash, Start, KeyPress ev_maximize] (handler0, world0)))"
proof -
  have h2: "grabs world0 = {}" by (simp add: world0_def)
  have "module_setup demo_env cfg_clash (handler0, world0) =
      Inr (handler_modal\<lparr>keys := [(64, 58)],
             pywo_handler := \<lparr>keys = [(64, 58)], numlock = 1, capslock = 2,
               config = Some cfg_clash, mappings = [((64, 58), act_maximize, None)]\<rparr>\<rparr>, world0)"
    by (simp add: set_config_defs demo_defs)
  then have "grabs (snd (run demo_env [Setup cfg_clash, Start, KeyPress ev_maximize]
               (handler0, world0))) =
      {(Controller, (64, 58)), (PywoHandler, (64, 58)), (EscapeHandler, (0, 9))}"
    by (simp add: mode_defs handler_modal_def ev_maximize_def h2 KeyHandler_init_def
          insert_commute)
  then show ?thesis by (simp add: at_most_one_handler_def)
qed

section \<open>Entering PyWO mode\<close>

text \<open>
  Claim C3, as the code has it. When the controller is in normal state and a combo of its
  key list (the mode key) is pressed, it enters PyWO mode with these effects, in this
  order: the ScrollLock LED is turned on if LED feedback is enabled; the visual bell is
  rung with the configured colour, width and duration if bell feedback is enabled; every
  combo of the inner handler is grabbed; the escape combo is grabbed, whether modal
  operation is enabled or not.
\<close>

theorem key_press_enters_pywo_mode:
  assumes "\<not> in_pywo_mode s"
      and "(modifiers ev, keycode ev) \<in> set (keys s)"
  shows "fst (ModalKeyHandler_key_press ev (s, w)) = s\<lparr>in_pywo_mode := True\<rparr> \<and>
     calls (snd (ModalKeyHandler_key_press ev (s, w))) =
       calls w @
       (if scroll_lock_led s then [ScrollLockLed True] else []) @
       (if visual_bell s then [VisualBell (bell_color s) (bell_width s) (bell_duration s)]
        else []) @
       map (GrabKey PywoHandler) (keys (pywo_handler s)) @
       map (GrabKey EscapeHandler) (keys (escape_handler s)) \<and>
     grabs (snd (ModalKeyHandler_key_press ev (s, w))) =
       grabs w \<union> Pair PywoHandler ` set (keys (pywo_handler s)) \<union>
       Pair EscapeHandler ` set (keys (escape_handler s))"
  using assms
  by (simp add: ModalKeyHandler_key_press_def pywo_mode_def KeyHandler_grab_keys_def
        wm_do_def log_do_def Let_def)

theorem key_press_enters_pywo_mode_witness:
  "\<not> in_pywo_mode handler_modal \<and>
   (modifiers ev_mode, keycode ev_mode) \<in> set (keys handler_modal) \<and>
   fst (ModalKeyHandler_key_press ev_mode (handler_modal, world0)) =
     handler_modal\<lparr>in_pywo_mode := True\<rparr> \<and>
   calls (snd (ModalKeyHandler_key_press ev_mode (handler_modal, world0))) =
     [ScrollLockLed True, VisualBell ''red'' 2 100,
      GrabKey PywoHandler (64, 58), GrabKey PywoHandler (64, 39),
      GrabKey PywoHandler (64, 43), GrabKey PywoHandler (64, 46),
      GrabKey EscapeHandler (0, 9)]"
proof -
  have h1: "\<not> in_pywo_mode handler_modal" by (simp add: handler_modal_def)
  have h2: "(modifiers ev_mode, keycode ev_mode) \<in> set (keys handler_modal)"
    by (simp add: handler_modal_def ev_mode_def)
  from key_press_enters_pywo_mode [OF h1 h2, of world0] h1 h2 show ?thesis
    by (simp add: handler_modal_def ph_modal_def world0_def KeyHandler_init_def)
qed

text \<open>
  The claim as written has the escape combo grabbed only if modal operation is enabled.
  After a modal configuration, \<^verbatim>\<open>start\<close> and a configuration without mode key, the
  controller is in normal state, modal operation is off and the old mode key is still in
  its key list; pressing it grabs the escape combo all the same.
\<close>

theorem escape_grab_counterexample:
  "\<not> in_pywo_mode (fst (run demo_env [Setup cfg_modal, Start, Setup cfg_nokey]
       (handler0, world0))) \<and>
   (modifiers ev_mode, keycode ev_mode) \<in>
     set (keys (fst (run demo_env [Setup cfg_modal, Start, Setup cfg_nokey]
       (handler0, world0)))) \<and>
   \<not> (GrabKey EscapeHandler (0, 9) \<in>
        set (calls (snd (ModalKeyHandler_key_press ev_mode
          (run demo_env [Setup cfg_modal, Start, Setup cfg_nokey] (handler0, world0))))) \<longrightarrow>
      use_modal_mode (fst (run demo_env [Setup cfg_modal, Start, Setup cfg_nokey]
        (handler0, world0))))"
proof -
  have "module_setup demo_env cfg_nokey
          (start (handler_modal, world0)) =
        Inr (handler_modal\<lparr>pywo_handler := ph_nokey, use_modal_mode := False\<rparr>,
             snd (start (handler_modal, world0)))"
    by (simp add: set_config_defs start_def demo_defs)
  then have "run demo_env [Setup cfg_modal, Start, Setup cfg_nokey] (handler0, world0) =
      (handler_modal\<lparr>pywo_handler := ph_nokey, use_modal_mode := False\<rparr>,
       snd (start (handler_modal, world0)))"
    by (simp add: setup_modal)
  then show ?thesis
    by (simp add: mode_defs handler_modal_def ph_nokey_def ev_mode_def KeyHandler_init_def)
qed

section \<open>Stopping the service\<close>

text \<open>
  Claim C1 says that \<^verbatim>\<open>stop\<close> leaves no grab, from any state. \<^verbatim>\<open>stop\<close> runs the
  controller's \<^verbatim>\<open>ungrab_keys\<close>, the method \<^verbatim>\<open>normal_mode\<close> uses to leave PyWO mode: in
  PyWO mode it releases the inner handler's combos (and the escape combo if modal
  operation is enabled) and not the controller's own. With modal operation enabled and
  PyWO mode entered, the grab that \<^verbatim>\<open>start\<close> made on the mode key is still held after
  \<^verbatim>\<open>stop\<close>. When the mode was entered and left with modal operation off, it is the escape
  combo that is still held after \<^verbatim>\<open>stop\<close>.
\<close>

theorem stop_leaves_grabs:
  "use_modal_mode (fst (run demo_env [Setup cfg_modal, Start, KeyPress ev_mode]
     (handler0, world0))) \<and>
   in_pywo_mode (fst (run demo_env [Setup cfg_modal, Start, KeyPress ev_mode]
     (handler0, world0))) \<and>
   grabs (snd (run demo_env [Setup cfg_modal, Start, KeyPress ev_mode, Stop]
     (handler0, world0))) = {(Controller, (64, 33))} \<and>
   grabs (snd (run demo_env
     [Setup cfg_modal, Start, Setup cfg_nokey, KeyPress ev_mode, KeyPress ev_mode, Stop]
     (handler0, world0))) = {(EscapeHandler, (0, 9))}"
proof -
  have h2: "grabs world0 = {}" by (simp add: world0_def)
  have a: "use_modal_mode (fst (run demo_env [Setup cfg_modal, Start, KeyPress ev_mode]
       (handler0, world0))) \<and>
     in_pywo_mode (fst (run demo_env [Setup cfg_modal, Start, KeyPress ev_mode]
       (handler0, world0))) \<and>
     grabs (snd (run demo_env [Setup cfg_modal, Start, KeyPress ev_mode, Stop]
       (handler0, world0))) = {(Controller, (64, 33))}"
    by (auto simp add: setup_modal mode_defs handler_modal_def ph_modal_def ev_mode_def h2
          KeyHandler_init_def)
  have "module_setup demo_env cfg_nokey (start (handler_modal, world0)) =
        Inr (handler_modal\<lparr>pywo_handler := ph_nokey, use_modal_mode := False\<rparr>,
             snd (start (handler_modal, world0)))"
    by (simp add: set_config_defs start_def demo_defs)
  then have st: "run demo_env [Setup cfg_modal, Start, Setup cfg_nokey] (handler0, world0) =
      (handler_modal\<lparr>pywo_handler := ph_nokey, use_modal_mode := False\<rparr>,
       snd (start (handler_modal, world0)))"
    by (simp add: setup_modal)
  have "run demo_env
          [Setup cfg_modal, Start, Setup cfg_nokey, KeyPress ev_mode, KeyPress ev_mode, Stop]
          (handler0, world0) =
        run demo_env [KeyPress ev_mode, KeyPress ev_mode, Stop]
          (run demo_env [Setup cfg_modal, Start, Setup cfg_nokey] (handler0, world0))"
    by simp
  then have b: "grabs (snd (run demo_env
       [Setup cfg_modal, Start, Setup cfg_nokey, KeyPress ev_mode, KeyPress ev_mode, Stop]
       (handler0, world0))) = {(EscapeHandler, (0, 9))}"
    unfolding st
    by (auto simp add: mode_defs handler_modal_def ph_nokey_def ev_mode_def h2
          KeyHandler_init_def)
  from a b show ?thesis by blast
qed

section \<open>Invalid key strings in the configuration\<close>

text \<open>
  Claim C4 says that a section whose key does not resolve is logged and skipped, and that
  every other valid entry is still inserted. The \<^verbatim>\<open>except ValueError\<close> clause logs and
  then falls through to the assignment \<^verbatim>\<open>self.mappings[(mod, keycode)] = ...\<close>. With the
  sections \<open>left\<close> (valid) and \<open>broken\<close> (invalid), the entry of \<open>left\<close> is overwritten
  by one for \<open>broken\<close> under the combo of \<open>left\<close>. When nothing was resolved before the
  failure, \<^verbatim>\<open>mod\<close> and \<^verbatim>\<open>keycode\<close> are unbound and \<^verbatim>\<open>set_config\<close> ends with an
  \<^verbatim>\<open>UnboundLocalError\<close>, before the valid section \<open>left\<close> is reached.
\<close>

theorem invalid_section_key_not_skipped:
  "PywoModeKeyPressHandler_set_config demo_env cfg_broken_section
     (PywoModeKeyPressHandler_init, world0) =
   Inr (\<lparr>keys = [(64, 58), (64, 39), (64, 43)], numlock = 1, capslock = 2,
         config = Some cfg_broken_section,
         mappings = [((64, 58), act_maximize, None), ((64, 39), act_shade, None),
                     ((64, 43), act_move, Some sec_broken)]\<rparr>,
        world0\<lparr>logged := [LogInvalidKey sec_broken]\<rparr>) \<and>
   PywoModeKeyPressHandler_set_config (demo_env\<lparr>get_all := [act_move]\<rparr>)
     (cfg_modal\<lparr>config_sections := [sec_broken, sec_left]\<rparr>)
     (PywoModeKeyPressHandler_init, world0) =
   Inl (UnboundLocalError,
        PywoModeKeyPressHandler_init
          \<lparr>config := Some (cfg_modal\<lparr>config_sections := [sec_broken, sec_left]\<rparr>)\<rparr>,
        world0\<lparr>logged := [LogInvalidKey sec_broken]\<rparr>)"
  by (simp add: PywoModeKeyPressHandler_set_config_def demo_defs)

text \<open>
  Claim C5 says that an invalid key string never aborts the construction of the table.
  For an action without section the resolution is not guarded: the \<^verbatim>\<open>ValueError\<close> leaves
  \<^verbatim>\<open>set_config\<close>. With \<^verbatim>\<open>shade\<close> bound to an invalid key, the handler that held the
  modal example's table ends with the new configuration stored, a table that holds
  \<^verbatim>\<open>maximize\<close> only (the entries of \<^verbatim>\<open>move\<close> are never reached), and the key list and
  lock flags of the old configuration.
\<close>

theorem invalid_global_key_aborts:
  "PywoModeKeyPressHandler_set_config demo_env cfg_broken_global (ph_modal, world0) =
   Inl (ValueError,
        \<lparr>keys = [(64, 58), (64, 39), (64, 43), (64, 46)], numlock = 1, capslock = 2,
         config = Some cfg_broken_global,
         mappings = [((64, 58), act_maximize, None)]\<rparr>,
        world0) \<and>
   config_numlock cfg_broken_global = 0"
  by (simp add: PywoModeKeyPressHandler_set_config_def demo_defs)

section \<open>Configuration without a mode key on a fresh controller\<close>

text \<open>
  Claim C7 says that the controller is in PyWO mode right after \<^verbatim>\<open>set_config\<close> whenever
  modal operation is disabled, also when the mode key is absent. In that case
  \<^verbatim>\<open>set_config\<close> returns before the statement that sets \<^verbatim>\<open>in_pywo_mode\<close>: a fresh
  controller stays in normal state. \<^verbatim>\<open>start\<close> then grabs the inner handler's combos, and
  \<^verbatim>\<open>stop\<close>, which goes by \<^verbatim>\<open>in_pywo_mode\<close>, releases none of them.
\<close>

theorem no_mode_key_not_in_pywo_mode:
  "\<not> truthy (map_of (config_keys cfg_nokey) ''pywo_mode'') \<and>
   ModalKeyHandler_set_config demo_env cfg_nokey (handler0, world0) =
     Inr (handler0\<lparr>pywo_handler := ph_nokey, use_modal_mode := False\<rparr>, world0) \<and>
   \<not> in_pywo_mode (handler0\<lparr>pywo_handler := ph_nokey, use_modal_mode := False\<rparr>) \<and>
   grabs (snd (run demo_env [Setup cfg_nokey, Start] (handler0, world0))) =
     {(PywoHandler, (64, 58)), (PywoHandler, (64, 43)), (PywoHandler, (64, 46))} \<and>
   grabs (snd (run demo_env [Setup cfg_nokey, Start, Stop] (handler0, world0))) =
     {(PywoHandler, (64, 58)), (PywoHandler, (64, 43)), (PywoHandler, (64, 46))}"
proof -
  have nk: "\<not> truthy (map_of (config_keys cfg_nokey) ''pywo_mode'')"
    by (simp add: cfg_nokey_def cfg_modal_def)
  have sc: "ModalKeyHandler_set_config demo_env cfg_nokey (handler0, world0) =
     Inr (handler0\<lparr>pywo_handler := ph_nokey, use_modal_mode := False\<rparr>, world0)"
    by (simp add: set_config_defs demo_defs)
  have np: "\<not> in_pywo_mode (handler0\<lparr>pywo_handler := ph_nokey, use_modal_mode := False\<rparr>)"
    by (simp add: handler0_def)
  have h2: "grabs world0 = {}" by (simp add: world0_def)
  have st: "exec_step demo_env (Setup cfg_nokey) (handler0, world0) =
     (handler0\<lparr>pywo_handler := ph_nokey, use_modal_mode := False\<rparr>, world0)"
    by (simp add: module_setup_def sc)
  have g1: "grabs (snd (run demo_env [Setup cfg_nokey, Start] (handler0, world0))) =
     {(PywoHandler, (64, 58)), (PywoHandler, (64, 43)), (PywoHandler, (64, 46))}"
    unfolding run.simps st
    by (auto simp add: mode_defs handler0_def ph_nokey_def h2)
  have g2: "grabs (snd (run demo_env [Setup cfg_nokey, Start, Stop] (handler0, world0))) =
     {(PywoHandler, (64, 58)), (PywoHandler, (64, 43)), (PywoHandler, (64, 46))}"
    unfolding run.simps st
    by (auto simp add: mode_defs handler0_def ph_nokey_def h2)
  from nk sc np g1 g2 show ?thesis by blast
qed

end
